theory Spec2Isabelle
  imports Complex_Main
begin

section \<open>A private blockchain: blocks, the chain and the star registry\<close>

text \<open>
  The development embeds \<^verbatim>\<open>src/blockchain.js\<close> (class \<^verbatim>\<open>Blockchain\<close>). Every method of the
  class returns a promise; a promise that resolves with \<open>v\<close> is the value \<open>Inr v\<close>, one that
  rejects with an error is \<open>Inl e\<close>, and the object's fields are passed in and returned.
  A string is a list of code units below 256. Blocks are values: a block handed to \<^verbatim>\<open>_addBlock\<close> is
  taken to be an object that is not already stored in the chain.
\<close>

subsection \<open>Errors\<close>

text \<open>
  The source rejects with \<^verbatim>\<open>new Error(message)\<close>; each message is one constructor.
\<close>

datatype error =
    GenesisAccessError      \<comment> \<open>\<^verbatim>\<open>Can not return data for Genesis Block\<close>\<close>
  | ChainIntegrityError     \<comment> \<open>\<^verbatim>\<open>Blockchain validation failed \<close>\<close>
  | PushError               \<comment> \<open>\<^verbatim>\<open>Exception while adding block to the chain\<close>\<close>
  | TypeError               \<comment> \<open>\<^verbatim>\<open>Can add only objects of type Block\<close>\<close>
  | ExpiredChallengeError   \<comment> \<open>\<^verbatim>\<open>More than 5 mins elapsed since the signing of the message\<close>\<close>
  | SignatureError          \<comment> \<open>\<^verbatim>\<open>Not able to verify the message\<close>\<close>
  | ClaimSubmissionError    \<comment> \<open>\<^verbatim>\<open>Error while adding the block to chain\<close>\<close>

subsection \<open>Blocks\<close>

text \<open>
  The fields \<^verbatim>\<open>_addBlock\<close>, \<^verbatim>\<open>submitStar\<close>, \<^verbatim>\<open>validateChain\<close> and
  \<^verbatim>\<open>getStarsByWalletAddress\<close> read and write on a block. \<open>None\<close> is JavaScript's
  \<^verbatim>\<open>null\<close> (or an absent property).
\<close>

record block =
  hash :: "string option"
  height :: int
  body :: string
  time :: string
  previousBlockHash :: "string option"
  owner :: "string option"

text \<open>
  The libraries the class calls are parameters of the model:
  \<^item> \<open>sha256_json b\<close> is \<^verbatim>\<open>SHA256(JSON.stringify(b)).toString()\<close> (crypto-js);
  \<^item> \<open>verify message address signature\<close> is \<^verbatim>\<open>bitcoinMessage.verify\<close>, which returns a
    boolean or throws (\<open>None\<close>);
  \<^item> \<open>stringify star owner\<close> is \<^verbatim>\<open>JSON.stringify({star: star, owner: owner})\<close>, the text
    the \<^verbatim>\<open>Block\<close> constructor encodes.
\<close>

record env =
  sha256_json :: "block \<Rightarrow> string"
  verify :: "string \<Rightarrow> string \<Rightarrow> string \<Rightarrow> bool option"
  stringify :: "string \<Rightarrow> string option \<Rightarrow> string"

subsubsection \<open>Hexadecimal payloads\<close>

definition hexDigit :: "nat \<Rightarrow> char" where
  "hexDigit n = ''0123456789abcdef'' ! (n mod 16)"

text \<open>
  Modelled from the spec: the payload encoding of the \<^verbatim>\<open>Block\<close> constructor
  (\<^verbatim>\<open>src/block.js\<close> is missing), "hex-of-ASCII": two lowercase hexadecimal digits a byte.
\<close>

definition ascii2hex :: "string \<Rightarrow> string" where
  "ascii2hex s = concat (map (\<lambda>c. [hexDigit (of_char c div 16), hexDigit (of_char c mod 16)]) s)"

definition hexValue :: "char \<Rightarrow> nat option" where
  "hexValue c =
     (let n = (of_char c :: nat) in
      if 48 \<le> n \<and> n \<le> 57 then Some (n - 48)
      else if 97 \<le> n \<and> n \<le> 102 then Some (n - 87)
      else if 65 \<le> n \<and> n \<le> 70 then Some (n - 55)
      else None)"

text \<open>
  Modelled from the spec: the decoder \<^verbatim>\<open>hex2ascii\<close> (an external package), the inverse of
  the payload encoding: each pair of hexadecimal digits is one character; a pair that is
  not hexadecimal is dropped.
\<close>

fun hex2ascii :: "string \<Rightarrow> string" where
  "hex2ascii (a # b # rest) =
     (case (hexValue a, hexValue b) of
        (Some x, Some y) \<Rightarrow> char_of (16 * x + y) # hex2ascii rest
      | _ \<Rightarrow> hex2ascii rest)"
| "hex2ascii _ = []"

text \<open>
  Modelled from the spec: the \<^verbatim>\<open>Block\<close> constructor (\<^verbatim>\<open>src/block.js\<close> is missing). A new
  block has no hash, no link and height 0, and its body is the encoded payload.
\<close>

definition Block :: "env \<Rightarrow> string \<Rightarrow> string option \<Rightarrow> block" where
  "Block e star own =
     \<lparr> hash = None, height = 0, body = ascii2hex (stringify e star own), time = ''0'',
       previousBlockHash = None, owner = None \<rparr>"

text \<open>
  Modelled from the spec: \<^verbatim>\<open>Block.validate\<close> (\<^verbatim>\<open>src/block.js\<close> is missing) recomputes the
  hash of the block with the hash field cleared and compares it with the stored hash.
\<close>

definition validate :: "env \<Rightarrow> block \<Rightarrow> bool" where
  "validate e b = (hash b = Some (sha256_json e (b\<lparr>hash := None\<rparr>)))"

text \<open>
  Modelled from the spec: \<^verbatim>\<open>Block.getBData\<close> (\<^verbatim>\<open>src/block.js\<close> is missing) decodes the
  body and fails on the genesis block.
\<close>

definition getBData :: "block \<Rightarrow> error + string" where
  "getBData b = (if height b = 0 then Inl GenesisAccessError else Inr (hex2ascii (body b)))"

subsection \<open>JavaScript's strings and numbers\<close>

text \<open>\<^verbatim>\<open>s.split(sep)\<close> for a one-character separator.\<close>

primrec split :: "char \<Rightarrow> string \<Rightarrow> string list" where
  "split sep [] = [[]]"
| "split sep (c # cs) =
     (if c = sep then [] # split sep cs
      else (case split sep cs of [] \<Rightarrow> [[c]] | f # fs \<Rightarrow> (c # f) # fs))"

text \<open>\<^verbatim>\<open>xs[i]\<close>: \<^verbatim>\<open>undefined\<close> (\<open>None\<close>) out of range.\<close>

definition index :: "'a list \<Rightarrow> nat \<Rightarrow> 'a option" where
  "index xs i = (if i < length xs then Some (xs ! i) else None)"

text \<open>
  The white space and line terminators \<^verbatim>\<open>parseInt\<close> skips, among the code units below 256
  that a \<open>char\<close> holds: tab, line feed, vertical tab, form feed, carriage return, space
  and the no-break space U+00A0. (The others, such as U+FEFF and U+2028, are not
  characters of the model.)
\<close>

definition isWhiteSpace :: "char \<Rightarrow> bool" where
  "isWhiteSpace c =
     (let n = (of_char c :: nat) in (9 \<le> n \<and> n \<le> 13) \<or> n = 32 \<or> n = 160)"

definition digitValue :: "char \<Rightarrow> nat option" where
  "digitValue c =
     (let n = (of_char c :: nat) in
      if 48 \<le> n \<and> n \<le> 57 then Some (n - 48)
      else if 97 \<le> n \<and> n \<le> 122 then Some (n - 87)
      else if 65 \<le> n \<and> n \<le> 90 then Some (n - 55)
      else None)"

definition isDigit :: "nat \<Rightarrow> char \<Rightarrow> bool" where
  "isDigit radix c = (case digitValue c of None \<Rightarrow> False | Some d \<Rightarrow> d < radix)"

definition digitsValue :: "nat \<Rightarrow> string \<Rightarrow> nat" where
  "digitsValue radix ds =
     foldl (\<lambda>acc c. acc * radix + (case digitValue c of None \<Rightarrow> 0 | Some d \<Rightarrow> d)) 0 ds"

text \<open>
  \<^verbatim>\<open>parseInt(s)\<close> with no radix: leading white space is skipped, then a sign, then a
  \<^verbatim>\<open>0x\<close> prefix (radix 16), then the longest run of digits; \<^verbatim>\<open>NaN\<close> (\<open>None\<close>) when the
  run is empty. The result is the exact integer (a JavaScript number is exact up to
  \<open>2^53\<close>).
\<close>

definition parseInt :: "string \<Rightarrow> int option" where
  "parseInt s =
     (let s1 = dropWhile isWhiteSpace s;
          sgn1 = (case s1 of [] \<Rightarrow> (1::int) | c # _ \<Rightarrow> if c = CHR ''-'' then - 1 else 1);
          s2 = (case s1 of [] \<Rightarrow> [] | c # r \<Rightarrow> if c = CHR ''-'' \<or> c = CHR ''+'' then r else s1);
          hex = (case s2 of a # b # _ \<Rightarrow> a = CHR ''0'' \<and> (b = CHR ''x'' \<or> b = CHR ''X'') | _ \<Rightarrow> False);
          radix = (if hex then 16 else 10);
          s3 = (if hex then drop 2 s2 else s2);
          ds = takeWhile (isDigit radix) s3
      in if ds = [] then None else Some (sgn1 * int (digitsValue radix ds)))"

text \<open>\<^verbatim>\<open>n.toString()\<close> of a non-negative integer: its decimal digits.\<close>

fun toString :: "nat \<Rightarrow> string" where
  "toString n = (if n < 10 then [hexDigit n] else toString (n div 10) @ [hexDigit (n mod 10)])"

text \<open>
  \<^verbatim>\<open>new Date().getTime().toString().slice(0, -3)\<close>, for a clock that reads \<open>ms\<close>
  milliseconds: the decimal digits without the last three.
\<close>

declare toString.simps [simp del]

definition timeString :: "nat \<Rightarrow> string" where
  "timeString ms = (let s = toString ms in take (length s - 3) s)"

subsection \<open>The chain\<close>

text \<open>
  The fields of \<^verbatim>\<open>Blockchain\<close>: \<^verbatim>\<open>this.chain\<close> and \<^verbatim>\<open>this.height\<close> (named \<open>chain_height\<close>
  here, since a block has a \<open>height\<close> too).
\<close>

record blockchain =
  chain :: "block list"
  chain_height :: int

text \<open>
  The loop of \<^verbatim>\<open>validateChain\<close>, in the state \<open>i\<close>, \<open>errorLog\<close>.
\<close>

function validateLoop :: "env \<Rightarrow> block list \<Rightarrow> nat \<Rightarrow> nat list \<Rightarrow> nat list" where
  "validateLoop e ch i errorLog =
     (if int i < int (length ch) - 1 then
        let valid = validate e (ch ! i);
            errorLog1 = (if \<not> valid then errorLog @ [i] else errorLog);
            blockHash = hash (ch ! i);
            previousHash = previousBlockHash (ch ! (i + 1));
            errorLog2 = (if blockHash \<noteq> previousHash then errorLog1 @ [i] else errorLog1)
        in validateLoop e ch (i + 1) errorLog2
      else errorLog)"
  by pat_completeness auto
termination
  by (relation "measure (\<lambda>(e, ch, i, errorLog). length ch - i)") auto

declare validateLoop.simps [simp del]

definition validateChain :: "env \<Rightarrow> block list \<Rightarrow> nat list" where
  "validateChain e ch = validateLoop e ch 0 []"

text \<open>
  What \<^verbatim>\<open>_addBlock\<close> is called with: a \<^verbatim>\<open>Block\<close> object or any other value.
\<close>

datatype candidate = BlockObj block | NonBlock

text \<open>
  \<^verbatim>\<open>_addBlock(block)\<close>; \<open>t1\<close> and \<open>t2\<close> are the two readings of the clock. The result is the
  promise's outcome and the object's fields afterwards.
\<close>

definition addBlock ::
  "env \<Rightarrow> nat \<Rightarrow> nat \<Rightarrow> blockchain \<Rightarrow> candidate \<Rightarrow> (error + block) \<times> blockchain" where
  "addBlock e t1 t2 self cand =
     (case cand of
        NonBlock \<Rightarrow> (Inl TypeError, self)
      | BlockObj block \<Rightarrow>
          let b1 = block\<lparr>time := timeString t1\<rparr>;
              b2 = (if length (chain self) > 0
                    then b1\<lparr>previousBlockHash := hash (chain self ! (length (chain self) - 1)),
                            height := int (length (chain self))\<rparr>
                    else b1);
              b3 = b2\<lparr>time := timeString t2\<rparr>;
              b4 = b3\<lparr>hash := Some (sha256_json e b3)\<rparr>;
              self1 = self\<lparr>chain := chain self @ [b4]\<rparr>;
              blockIndex = length (chain self1)
          in if blockIndex \<noteq> 0 then
               let errorLog = validateChain e (chain self1)
               in if length errorLog > 0 then (Inl ChainIntegrityError, self1)
                  else (Inr (chain self1 ! (blockIndex - 1)), self1)
             else (Inl PushError, self1))"

text \<open>\<^verbatim>\<open>initializeChain()\<close>.\<close>

definition initializeChain ::
  "env \<Rightarrow> nat \<Rightarrow> nat \<Rightarrow> blockchain \<Rightarrow> (error + unit) \<times> blockchain" where
  "initializeChain e t1 t2 self =
     (if chain_height self = - 1 then
        let block = (Block e ''Genesis Block'' None)\<lparr>height := 0\<rparr>
        in (case addBlock e t1 t2 self (BlockObj block) of
              (Inl err, self1) \<Rightarrow> (Inl err, self1)
            | (Inr _, self1) \<Rightarrow> (Inr (), self1))
      else (Inr (), self))"

text \<open>The constructor: an empty chain, height \<open>-1\<close>, then \<^verbatim>\<open>initializeChain()\<close>.\<close>

definition Blockchain :: "env \<Rightarrow> nat \<Rightarrow> nat \<Rightarrow> blockchain" where
  "Blockchain e t1 t2 = snd (initializeChain e t1 t2 \<lparr>chain = [], chain_height = - 1\<rparr>)"

definition getChainHeight :: "blockchain \<Rightarrow> int" where
  "getChainHeight self = chain_height self"

text \<open>
  The test \<^verbatim>\<open>((currentTime - messageTime) / 60) > 5\<close> of \<^verbatim>\<open>submitStar\<close>; a comparison with
  \<^verbatim>\<open>NaN\<close> is false.
\<close>

definition moreThan5Minutes :: "int option \<Rightarrow> int option \<Rightarrow> bool" where
  "moreThan5Minutes currentTime messageTime =
     (case (currentTime, messageTime) of
        (Some c, Some m) \<Rightarrow> (of_int (c - m) :: rat) / 60 > 5
      | _ \<Rightarrow> False)"

text \<open>
  The two numbers \<^verbatim>\<open>submitStar\<close> compares: \<^verbatim>\<open>parseInt(message.split(':')[1])\<close>, where
  \<^verbatim>\<open>parseInt(undefined)\<close> parses the text \<^verbatim>\<open>undefined\<close>, and
  \<^verbatim>\<open>parseInt(new Date().getTime().toString().slice(0, -3))\<close>.
\<close>

definition messageTime :: "string \<Rightarrow> int option" where
  "messageTime message =
     (case index (split CHR '':'' message) 1 of
        None \<Rightarrow> parseInt ''undefined''
      | Some field \<Rightarrow> parseInt field)"

definition currentTime :: "nat \<Rightarrow> int option" where
  "currentTime t0 = parseInt (timeString t0)"

text \<open>
  \<^verbatim>\<open>submitStar(address, message, signature, star)\<close>; \<open>t0\<close> is the clock read by
  \<^verbatim>\<open>submitStar\<close> itself, \<open>t1\<close> and \<open>t2\<close> are the readings of \<^verbatim>\<open>_addBlock\<close>. The promise of
  \<^verbatim>\<open>_addBlock\<close> is passed to \<^verbatim>\<open>resolve\<close>, so its outcome is the outcome of \<^verbatim>\<open>submitStar\<close>;
  \<^verbatim>\<open>catch\<close> sees what is thrown inside \<^verbatim>\<open>try\<close>: here, by \<^verbatim>\<open>bitcoinMessage.verify\<close>. The
  message is a string and the payload can be serialised, so \<^verbatim>\<open>message.split\<close> and the
  \<^verbatim>\<open>Block\<close> constructor, which could throw on other arguments, do not throw here.
\<close>

definition submitStar ::
  "env \<Rightarrow> nat \<Rightarrow> nat \<Rightarrow> nat \<Rightarrow> blockchain \<Rightarrow> string \<Rightarrow> string \<Rightarrow> string \<Rightarrow> string
     \<Rightarrow> (error + block) \<times> blockchain" where
  "submitStar e t0 t1 t2 self address message signature star =
     (if moreThan5Minutes (currentTime t0) (messageTime message)
      then (Inl ExpiredChallengeError, self)
      else (case verify e message address signature of
              None \<Rightarrow> (Inl ClaimSubmissionError, self)
            | Some False \<Rightarrow> (Inl SignatureError, self)
            | Some True \<Rightarrow>
                let block = (Block e star (Some address))\<lparr>owner := Some address\<rparr>
                in addBlock e t1 t2 self (BlockObj block)))"

text \<open>\<^verbatim>\<open>getStarsByWalletAddress(address)\<close>; \<open>None\<close> is the \<^verbatim>\<open>null\<close> it resolves with.\<close>

definition getStarsByWalletAddress :: "blockchain \<Rightarrow> string \<Rightarrow> string list option" where
  "getStarsByWalletAddress self address =
     (let blocks = filter (\<lambda>p. owner p = Some address) (chain self);
          ownedBlocks = foldl (\<lambda>acc block. acc @ [hex2ascii (body block)]) [] blocks
      in if length ownedBlocks > 0 then Some ownedBlocks else None)"

subsection \<open>The specification of the chain scan\<close>

text \<open>
  The scan as the specification words it, to be compared with \<open>validateChain\<close>: for each
  index \<open>i\<close> from 0 to length - 2, \<open>i\<close> is recorded when the block at \<open>i\<close> does not
  validate, and recorded again when its hash differs from the back-link of the next block.
\<close>

definition errorsAt :: "env \<Rightarrow> block list \<Rightarrow> nat \<Rightarrow> nat list" where
  "errorsAt e ch i =
     (if validate e (ch ! i) then [] else [i]) @
     (if hash (ch ! i) = previousBlockHash (ch ! (i + 1)) then [] else [i])"

definition validate_chain_spec :: "env \<Rightarrow> block list \<Rightarrow> nat list" where
  "validate_chain_spec e ch = concat (map (errorsAt e ch) [0..<length ch - 1])"

subsection \<open>Stand-ins for the libraries\<close>

text \<open>
  To run the model on concrete inputs the library parameters need values. The stand-in
  digest is the text of the block's fields (so blocks that differ have different digests,
  as is expected of SHA-256); the stand-in verifier accepts the signature
  \<open>''signed:'' @ message\<close>, rejects any other and throws on \<open>''malformed''\<close>; the stand-in
  for the JSON text of a payload is the star and the owner, separated by a bar.
\<close>

definition test_sha :: "block \<Rightarrow> string" where
  "test_sha b =
     (case hash b of None \<Rightarrow> ''null'' | Some h \<Rightarrow> ''#'' @ h) @ '','' @
     toString (nat (height b)) @ '','' @ body b @ '','' @ time b @ '','' @
     (case previousBlockHash b of None \<Rightarrow> ''null'' | Some h \<Rightarrow> ''#'' @ h) @ '','' @
     (case owner b of None \<Rightarrow> ''null'' | Some a \<Rightarrow> ''#'' @ a)"

definition test_env :: env where
  "test_env =
     \<lparr> sha256_json = test_sha,
       verify = (\<lambda>message address signature.
          if signature = ''malformed'' then None else Some (signature = ''signed:'' @ message)),
       stringify = (\<lambda>star own.
          star @ ''|'' @ (case own of None \<Rightarrow> ''null'' | Some a \<Rightarrow> a)) \<rparr>"

text \<open>
  Three chains to run the model on: the chain the constructor leaves; that chain after
  \<^verbatim>\<open>_addBlock\<close> was called with a block whose hash field was already set (the hash
  \<^verbatim>\<open>_addBlock\<close> stores is then the digest of a block with a hash, which \<^verbatim>\<open>validate\<close>
  does not recompute); and the constructor's chain after one accepted star claim.
\<close>

definition genesis_chain :: blockchain where
  "genesis_chain = Blockchain test_env 1700000000123 1700000000456"

definition presealed_chain :: blockchain where
  "presealed_chain =
     snd (addBlock test_env 1700000001123 1700000001456 genesis_chain
            (BlockObj ((Block test_env ''First Block'' None)\<lparr>hash := Some ''abc''\<rparr>)))"

definition star_chain :: blockchain where
  "star_chain =
     snd (submitStar test_env 1700000100000 1700000100001 1700000100002 genesis_chain
            ''addr'' ''addr:1700000000:starRegistry'' ''signed:addr:1700000000:starRegistry''
            ''Sirius'')"

section \<open>Properties\<close>

subsection \<open>Running the model\<close>

text \<open>
  The equations that evaluate the model on concrete inputs, and the values of the three
  example chains.
\<close>

lemmas model_simps = test_env_def test_sha_def addBlock_def initializeChain_def Blockchain_def
  Block_def validateChain_def validateLoop.simps validate_def timeString_def toString.simps
  hexDigit_def ascii2hex_def Let_def getChainHeight_def submitStar_def moreThan5Minutes_def
  currentTime_def messageTime_def index_def parseInt_def isWhiteSpace_def isDigit_def
  digitValue_def digitsValue_def

lemma genesis_chain_value:
  "genesis_chain =
     \<lparr>chain =
        [\<lparr>hash = Some ''null,0,47656e6573697320426c6f636b7c6e756c6c,1700000000,null,null'',
          height = 0, body = ''47656e6573697320426c6f636b7c6e756c6c'', time = ''1700000000'',
          previousBlockHash = None, owner = None\<rparr>],
      chain_height = - 1\<rparr>"
  by (simp add: genesis_chain_def model_simps)

lemma presealed_chain_value:
  "presealed_chain =
     \<lparr>chain =
        [\<lparr>hash = Some ''null,0,47656e6573697320426c6f636b7c6e756c6c,1700000000,null,null'',
          height = 0, body = ''47656e6573697320426c6f636b7c6e756c6c'', time = ''1700000000'',
          previousBlockHash = None, owner = None\<rparr>,
         \<lparr>hash = Some (''#abc,1,466972737420426c6f636b7c6e756c6c,1700000001,'' @
            ''#null,0,47656e6573697320426c6f636b7c6e756c6c,1700000000,null,null,null''),
          height = 1, body = ''466972737420426c6f636b7c6e756c6c'', time = ''1700000001'',
          previousBlockHash =
            Some ''null,0,47656e6573697320426c6f636b7c6e756c6c,1700000000,null,null'',
          owner = None\<rparr>],
      chain_height = - 1\<rparr>"
  by (simp add: presealed_chain_def genesis_chain_value model_simps)

lemma star_chain_value:
  "star_chain =
     \<lparr>chain =
        [\<lparr>hash = Some ''null,0,47656e6573697320426c6f636b7c6e756c6c,1700000000,null,null'',
          height = 0, body = ''47656e6573697320426c6f636b7c6e756c6c'', time = ''1700000000'',
          previousBlockHash = None, owner = None\<rparr>,
         \<lparr>hash = Some (''null,1,5369726975737c61646472,1700000100,'' @
            ''#null,0,47656e6573697320426c6f636b7c6e756c6c,1700000000,null,null,#addr''),
          height = 1, body = ''5369726975737c61646472'', time = ''1700000100'',
          previousBlockHash =
            Some ''null,0,47656e6573697320426c6f636b7c6e756c6c,1700000000,null,null'',
          owner = Some ''addr''\<rparr>],
      chain_height = - 1\<rparr>"
  by (simp add: star_chain_def genesis_chain_value model_simps)

lemma messageTime_parsed: "messageTime ''addr:1700000000:starRegistry'' = Some 1700000000"
  by (simp add: model_simps)

subsection \<open>Payloads\<close>

lemma hexValue_hexDigit:
  assumes "k < 16"
  shows "hexValue (hexDigit k) = Some k"
proof -
  from assms have "k = 0 \<or> k = 1 \<or> k = 2 \<or> k = 3 \<or> k = 4 \<or> k = 5 \<or> k = 6 \<or> k = 7 \<or>
      k = 8 \<or> k = 9 \<or> k = 10 \<or> k = 11 \<or> k = 12 \<or> k = 13 \<or> k = 14 \<or> k = 15"
    by presburger
  then show ?thesis
    by (elim disjE) (simp_all add: hexValue_def hexDigit_def)
qed

lemma hex2ascii_pair:
  "hex2ascii (hexDigit (of_char c div 16) # hexDigit (of_char c mod 16) # rest) = c # hex2ascii rest"
proof -
  have n: "(of_char c :: nat) < 256" by simp
  then have d: "(of_char c :: nat) div 16 < 16" by (simp add: div_less_iff_less_mult)
  have m: "(of_char c :: nat) mod 16 < 16" by simp
  have "char_of (16 * ((of_char c :: nat) div 16) + of_char c mod 16) = c"
    by simp
  then show ?thesis
    by (simp add: hexValue_hexDigit [OF d] hexValue_hexDigit [OF m])
qed

lemma hex2ascii_ascii2hex: "hex2ascii (ascii2hex t) = t"
proof (induction t)
  case Nil
  show ?case by (simp add: ascii2hex_def)
next
  case (Cons c t)
  have "ascii2hex (c # t) =
      hexDigit (of_char c div 16) # hexDigit (of_char c mod 16) # ascii2hex t"
    by (simp add: ascii2hex_def)
  then show ?case using Cons by (simp only: hex2ascii_pair)
qed

text \<open>
  C9. \<^verbatim>\<open>getBData\<close> fails with the genesis error on a block of height 0, whatever its body;
  on a block of any other height whose body is the encoding of a text, it returns that
  text.
\<close>

theorem getBData_genesis_or_decoded:
  "(height b = 0 \<longrightarrow> getBData b = Inl GenesisAccessError) \<and>
   (height b \<noteq> 0 \<and> body b = ascii2hex text \<longrightarrow> getBData b = Inr text)"
  by (simp add: getBData_def hex2ascii_ascii2hex)

theorem getBData_genesis_or_decoded_witness:
  "height (chain genesis_chain ! 0) = 0 \<and>
   getBData (chain genesis_chain ! 0) = Inl GenesisAccessError \<and>
   height ((Block test_env ''Sirius'' (Some ''addr''))\<lparr>height := 1\<rparr>) \<noteq> 0 \<and>
   body ((Block test_env ''Sirius'' (Some ''addr''))\<lparr>height := 1\<rparr>) =
     ascii2hex ''Sirius|addr'' \<and>
   getBData ((Block test_env ''Sirius'' (Some ''addr''))\<lparr>height := 1\<rparr>) =
     Inr ''Sirius|addr''"
proof -
  have g: "height (chain genesis_chain ! 0) = 0"
    by (simp add: genesis_chain_value)
  have b: "body ((Block test_env ''Sirius'' (Some ''addr''))\<lparr>height := 1\<rparr>) =
      ascii2hex ''Sirius|addr''"
    by (simp add: Block_def test_env_def)
  show ?thesis
    using g b
      getBData_genesis_or_decoded [of "chain genesis_chain ! 0"]
      getBData_genesis_or_decoded [of "(Block test_env ''Sirius'' (Some ''addr''))\<lparr>height := 1\<rparr>"
        "''Sirius|addr''"]
    by simp
qed

subsection \<open>Parsing numbers, reading the clock\<close>

lemma parseInt_skips_no_break_space: "parseInt [char_of (160 :: nat), CHR ''7''] = Some 7"
  by (simp add: parseInt_def isWhiteSpace_def isDigit_def digitValue_def digitsValue_def)

lemma isDigit_10_iff: "isDigit 10 c \<longleftrightarrow> 48 \<le> (of_char c :: nat) \<and> (of_char c :: nat) \<le> 57"
  by (auto simp: isDigit_def digitValue_def Let_def split: option.splits if_splits)

lemma isDigit_10_plain:
  assumes "isDigit 10 c"
  shows "\<not> isWhiteSpace c" and "c \<noteq> CHR ''-''" and "c \<noteq> CHR ''+''"
    and "c \<noteq> CHR ''x''" and "c \<noteq> CHR ''X''"
  using assms by (auto simp: isDigit_10_iff isWhiteSpace_def Let_def)

lemma digitValue_hexDigit:
  assumes "d < 10"
  shows "digitValue (hexDigit d) = Some d"
proof -
  from assms have "d = 0 \<or> d = 1 \<or> d = 2 \<or> d = 3 \<or> d = 4 \<or> d = 5 \<or> d = 6 \<or> d = 7 \<or>
      d = 8 \<or> d = 9"
    by presburger
  then show ?thesis
    by (elim disjE) (simp_all add: digitValue_def hexDigit_def)
qed

lemma isDigit_hexDigit: "d < 10 \<Longrightarrow> isDigit 10 (hexDigit d)"
  by (simp add: isDigit_def digitValue_hexDigit)

lemma toString_small: "n < 10 \<Longrightarrow> toString n = [hexDigit n]"
  by (subst toString.simps) simp

lemma toString_large: "10 \<le> n \<Longrightarrow> toString n = toString (n div 10) @ [hexDigit (n mod 10)]"
  by (subst toString.simps) simp

lemma toString_digits: "c \<in> set (toString n) \<Longrightarrow> isDigit 10 c"
proof (induction n arbitrary: c rule: toString.induct)
  case (1 n)
  show ?case
  proof (cases "n < 10")
    case True
    with "1.prems" show ?thesis by (simp add: toString_small isDigit_hexDigit)
  next
    case False
    then have "toString n = toString (n div 10) @ [hexDigit (n mod 10)]"
      by (simp add: toString_large)
    with "1.prems" have "c \<in> set (toString (n div 10)) \<or> c = hexDigit (n mod 10)"
      by auto
    then show ?thesis
      using "1.IH" [OF False] by (auto simp: isDigit_hexDigit)
  qed
qed

lemma toString_not_Nil: "toString n \<noteq> []"
  by (subst toString.simps) simp

lemma digitsValue_snoc:
  "digitsValue r (ds @ [c]) = digitsValue r ds * r + (case digitValue c of None \<Rightarrow> 0 | Some d \<Rightarrow> d)"
  by (simp add: digitsValue_def)

lemma digitsValue_toString: "digitsValue 10 (toString n) = n"
proof (induction n rule: toString.induct)
  case (1 n)
  show ?case
  proof (cases "n < 10")
    case True
    then show ?thesis
      by (simp add: toString_small digitsValue_def digitValue_hexDigit)
  next
    case False
    have "digitsValue 10 (toString n) = digitsValue 10 (toString (n div 10)) * 10 + n mod 10"
      using False by (simp add: toString_large digitsValue_snoc digitValue_hexDigit)
    also have "\<dots> = n div 10 * 10 + n mod 10"
      using "1.IH" [OF False] by simp
    finally show ?thesis by simp
  qed
qed

lemma parseInt_digits:
  assumes ne: "s \<noteq> []" and dig: "\<And>c. c \<in> set s \<Longrightarrow> isDigit 10 c"
  shows "parseInt s = Some (int (digitsValue 10 s))"
proof -
  from ne obtain a r where s: "s = a # r" by (cases s) auto
  have a: "isDigit 10 a" using dig s by simp
  have s1: "dropWhile isWhiteSpace s = s"
    using s isDigit_10_plain(1) [OF a] by simp
  have nohex: "\<not> (case s of a # b # _ \<Rightarrow> a = CHR ''0'' \<and> (b = CHR ''x'' \<or> b = CHR ''X'') | _ \<Rightarrow> False)"
  proof (cases r)
    case Nil
    with s show ?thesis by simp
  next
    case (Cons b r')
    then have "isDigit 10 b" using dig s by simp
    then have "b \<noteq> CHR ''x''" "b \<noteq> CHR ''X''" by (rule isDigit_10_plain)+
    with s Cons show ?thesis by simp
  qed
  have tw: "takeWhile (isDigit 10) r = r"
    using dig s by (simp add: takeWhile_eq_all_conv)
  have sg: "a \<noteq> CHR ''-''" "a \<noteq> CHR ''+''" using a by (rule isDigit_10_plain)+
  show ?thesis
    unfolding parseInt_def s1
    using nohex sg a by (simp add: s Let_def tw)
qed

lemma parseInt_toString: "parseInt (toString n) = Some (int n)"
proof -
  have "parseInt (toString n) = Some (int (digitsValue 10 (toString n)))"
    by (rule parseInt_digits [OF toString_not_Nil]) (rule toString_digits)
  then show ?thesis by (simp add: digitsValue_toString)
qed

lemma timeString_seconds:
  assumes "1000 \<le> ms"
  shows "timeString ms = toString (ms div 1000)"
proof -
  have a: "toString ms = toString (ms div 10) @ [hexDigit (ms mod 10)]"
    using assms by (simp add: toString_large)
  have b: "toString (ms div 10) = toString (ms div 10 div 10) @ [hexDigit (ms div 10 mod 10)]"
    using assms by (simp add: toString_large)
  have c: "toString (ms div 10 div 10) =
      toString (ms div 10 div 10 div 10) @ [hexDigit (ms div 10 div 10 mod 10)]"
    using assms by (simp add: toString_large)
  have d: "ms div 10 div 10 div 10 = ms div 1000"
    by (simp add: div_mult2_eq [symmetric])
  show ?thesis
    unfolding timeString_def Let_def a b c d by simp
qed

lemma currentTime_seconds:
  "1000 \<le> ms \<Longrightarrow> parseInt (timeString ms) = Some (int (ms div 1000))"
  by (simp add: timeString_seconds parseInt_toString)

subsection \<open>The chain scan\<close>

lemma validateLoop_step:
  assumes "i < length ch - 1"
  shows "validateLoop e ch i errorLog = validateLoop e ch (i + 1) (errorLog @ errorsAt e ch i)"
proof -
  from assms have "int i < int (length ch) - 1" by linarith
  then show ?thesis
    by (subst validateLoop.simps) (simp add: errorsAt_def Let_def)
qed

lemma validateLoop_stop:
  assumes "\<not> i < length ch - 1"
  shows "validateLoop e ch i errorLog = errorLog"
proof -
  from assms have "\<not> int i < int (length ch) - 1" by linarith
  then show ?thesis
    by (subst validateLoop.simps) simp
qed

lemma validateLoop_eq:
  "validateLoop e ch i errorLog = errorLog @ concat (map (errorsAt e ch) [i..<length ch - 1])"
proof (induction "length ch - 1 - i" arbitrary: i errorLog)
  case 0
  then have "\<not> i < length ch - 1" by simp
  then show ?case by (simp add: validateLoop_stop)
next
  case (Suc k)
  then have lt: "i < length ch - 1" by simp
  from Suc have k: "k = length ch - 1 - (i + 1)" by simp
  have up: "[i..<length ch - 1] = i # [i + 1..<length ch - 1]"
    using lt by (simp add: upt_conv_Cons)
  have "validateLoop e ch i errorLog = validateLoop e ch (i + 1) (errorLog @ errorsAt e ch i)"
    using lt by (rule validateLoop_step)
  also have "\<dots> = (errorLog @ errorsAt e ch i) @ concat (map (errorsAt e ch) [i + 1..<length ch - 1])"
    using k by (rule Suc.hyps(1))
  also have "\<dots> = errorLog @ concat (map (errorsAt e ch) [i..<length ch - 1])"
    unfolding up by simp
  finally show ?case .
qed

lemma validateChain_eq:
  "validateChain e ch = concat (map (errorsAt e ch) [0..<length ch - 1])"
  by (simp add: validateChain_def validateLoop_eq)

lemma errorsAt_bounds: "x \<in> set (errorsAt e ch i) \<Longrightarrow> x = i"
  by (simp add: errorsAt_def split: if_splits)

lemma sorted_errorsAt: "sorted (errorsAt e ch i)"
  by (simp add: errorsAt_def)

lemma set_concat_errors:
  assumes "x \<in> set (concat (map (errorsAt e ch) [i..<n]))"
  shows "i \<le> x \<and> x < n"
proof -
  from assms obtain j where j: "j \<in> set [i..<n]" and x: "x \<in> set (errorsAt e ch j)"
    by auto
  from x have "x = j" by (rule errorsAt_bounds)
  with j show ?thesis by simp
qed

lemma sorted_concat_errors: "sorted (concat (map (errorsAt e ch) [i..<n]))"
proof (induction n)
  case 0
  then show ?case by simp
next
  case (Suc n)
  show ?case
  proof (cases "i \<le> n")
    case True
    have le: "x \<le> y" if "x \<in> set (concat (map (errorsAt e ch) [i..<n]))"
      and "y \<in> set (errorsAt e ch n)" for x y
      using set_concat_errors [OF that(1)] errorsAt_bounds [OF that(2)] by simp
    have "[i..<Suc n] = [i..<n] @ [n]" using True by simp
    then have "concat (map (errorsAt e ch) [i..<Suc n]) =
        concat (map (errorsAt e ch) [i..<n]) @ errorsAt e ch n"
      by simp
    then show ?thesis
      using Suc sorted_errorsAt [of e ch n] le by (simp only: sorted_append) blast
  next
    case False
    then show ?thesis by simp
  qed
qed

text \<open>
  C3. \<^verbatim>\<open>validateChain\<close> is a total function of the chain: it returns the list that the
  scan of the specification describes (indices 0 to length - 2, an index once for a block
  that does not validate and once more for a broken link), and the list is in ascending
  order.
\<close>

theorem validateChain_scan:
  "validateChain e ch = validate_chain_spec e ch \<and> sorted (validateChain e ch)"
proof -
  show ?thesis
    unfolding validate_chain_spec_def validateChain_eq
    using sorted_concat_errors [of e ch 0 "length ch - 1"] by simp
qed

subsection \<open>The height of the chain\<close>

lemma addBlock_chain_height:
  "chain_height (snd (addBlock e t1 t2 self cand)) = chain_height self"
  by (simp add: addBlock_def Let_def split: candidate.splits)

lemma addBlock_length:
  "length (chain (snd (addBlock e t1 t2 self (BlockObj b)))) = length (chain self) + 1"
  by (simp add: addBlock_def Let_def)

text \<open>
  C1. \<^verbatim>\<open>_addBlock\<close> never assigns \<^verbatim>\<open>this.height\<close> (\<open>addBlock_chain_height\<close>). After the
  constructor has appended the genesis block the chain has one block and the height is
  still \<open>-1\<close>, not 0; after one more accepted star claim the chain has two blocks and the
  height is still \<open>-1\<close>, not 1.
\<close>

theorem constructor_height_minus_one:
  "length (chain genesis_chain) = 1 \<and> getChainHeight genesis_chain = - 1 \<and>
   length (chain star_chain) = 2 \<and> getChainHeight star_chain = - 1"
  by (simp add: genesis_chain_value star_chain_value getChainHeight_def)

text \<open>
  C2. Since the height stays \<open>-1\<close>, the guard of \<^verbatim>\<open>initializeChain\<close> holds again on a second
  call: the chain then has two blocks with the genesis payload, and the height is \<open>-1\<close>.
\<close>

theorem initializeChain_twice_two_blocks:
  "(let s2 = snd (initializeChain test_env 1700000001123 1700000001456 genesis_chain)
    in length (chain s2) = 2 \<and> getChainHeight s2 = - 1 \<and>
       body (chain s2 ! 1) = body (chain s2 ! 0))"
  by (simp add: genesis_chain_value model_simps)

subsection \<open>Appending a block\<close>

lemma addBlock_BlockObj_chain:
  "\<exists>b'. chain (snd (addBlock e t1 t2 self (BlockObj b))) = chain self @ [b'] \<and>
        body b' = body b \<and> owner b' = owner b"
  by (simp add: addBlock_def Let_def)

lemma addBlock_outcome:
  "fst (addBlock e t1 t2 self (BlockObj b)) =
     (if validateChain e (chain (snd (addBlock e t1 t2 self (BlockObj b)))) \<noteq> []
      then Inl ChainIntegrityError
      else Inr (last (chain (snd (addBlock e t1 t2 self (BlockObj b))))))"
  by (simp add: addBlock_def Let_def)

text \<open>
  C8. When the validation that \<^verbatim>\<open>_addBlock\<close> runs on the chain after the push reports an
  error, the promise is rejected with the integrity error, and the chain afterwards is the
  old chain followed by the new block: nothing is rolled back.
\<close>

theorem addBlock_integrity_failure_keeps_block:
  assumes "validateChain e (chain (snd (addBlock e t1 t2 self (BlockObj b)))) \<noteq> []"
  shows "fst (addBlock e t1 t2 self (BlockObj b)) = Inl ChainIntegrityError \<and>
         (\<exists>b'. chain (snd (addBlock e t1 t2 self (BlockObj b))) = chain self @ [b'] \<and>
               body b' = body b \<and> owner b' = owner b)"
  using assms addBlock_BlockObj_chain [of e t1 t2 self b]
  by (simp add: addBlock_outcome)

theorem addBlock_integrity_failure_keeps_block_witness:
  "validateChain test_env (chain (snd (addBlock test_env 1700000002123 1700000002456
      presealed_chain (BlockObj (Block test_env ''Second Block'' None))))) \<noteq> [] \<and>
   fst (addBlock test_env 1700000002123 1700000002456
      presealed_chain (BlockObj (Block test_env ''Second Block'' None))) = Inl ChainIntegrityError \<and>
   length (chain (snd (addBlock test_env 1700000002123 1700000002456
      presealed_chain (BlockObj (Block test_env ''Second Block'' None))))) = 3"
proof -
  have h: "validateChain test_env (chain (snd (addBlock test_env 1700000002123 1700000002456
      presealed_chain (BlockObj (Block test_env ''Second Block'' None))))) \<noteq> []"
    by (simp add: presealed_chain_value model_simps)
  have l: "length (chain presealed_chain) = 2"
    by (simp add: presealed_chain_value)
  from addBlock_integrity_failure_keeps_block [OF h] l h show ?thesis
    by auto
qed

subsection \<open>Submitting a star\<close>

lemma moreThan5Minutes_iff: "moreThan5Minutes (Some c) (Some m) \<longleftrightarrow> 300 < c - m"
proof -
  have "(5 < (of_int (c - m) :: rat) / 60) \<longleftrightarrow> (of_int 300 < (of_int (c - m) :: rat))"
    by (simp add: field_simps)
  also have "\<dots> \<longleftrightarrow> 300 < c - m"
    by (simp only: of_int_less_iff)
  finally show ?thesis by (simp add: moreThan5Minutes_def)
qed

lemma moreThan5Minutes_NaN: "\<not> moreThan5Minutes c None"
  by (simp add: moreThan5Minutes_def split: option.splits)

lemma in_time_window:
  "\<not> moreThan5Minutes (currentTime 1700000100000) (messageTime ''addr:1700000000:starRegistry'')"
  by (simp add: messageTime_parsed currentTime_seconds currentTime_def moreThan5Minutes_iff)

text \<open>
  C5. When the clock reads more than 300 seconds past the time parsed from the message,
  \<^verbatim>\<open>submitStar\<close> rejects with the expiry error and leaves the chain as it was, whatever the
  signature. When the signature does not verify, within the time window it rejects with
  the signature error, and in every case it rejects and leaves the chain as it was.
\<close>

theorem submitStar_rejects_expired_or_unverified:
  "(1000 \<le> t0 \<and> messageTime message = Some mt \<and> 300 < int (t0 div 1000) - mt \<longrightarrow>
      submitStar e t0 t1 t2 self address message signature star =
        (Inl ExpiredChallengeError, self)) \<and>
   (verify e message address signature = Some False \<and>
    \<not> moreThan5Minutes (currentTime t0) (messageTime message) \<longrightarrow>
      submitStar e t0 t1 t2 self address message signature star = (Inl SignatureError, self)) \<and>
   (verify e message address signature \<noteq> Some True \<longrightarrow>
      (\<exists>err. submitStar e t0 t1 t2 self address message signature star = (Inl err, self)))"
proof (intro conjI impI)
  assume "1000 \<le> t0 \<and> messageTime message = Some mt \<and> 300 < int (t0 div 1000) - mt"
  then have "moreThan5Minutes (currentTime t0) (messageTime message)"
    by (simp add: currentTime_def currentTime_seconds moreThan5Minutes_iff)
  then show "submitStar e t0 t1 t2 self address message signature star =
      (Inl ExpiredChallengeError, self)"
    by (simp add: submitStar_def)
next
  assume "verify e message address signature = Some False \<and>
    \<not> moreThan5Minutes (currentTime t0) (messageTime message)"
  then show "submitStar e t0 t1 t2 self address message signature star = (Inl SignatureError, self)"
    by (simp add: submitStar_def)
next
  assume "verify e message address signature \<noteq> Some True"
  then show "\<exists>err. submitStar e t0 t1 t2 self address message signature star = (Inl err, self)"
    by (cases "verify e message address signature") (auto simp: submitStar_def)
qed

theorem submitStar_rejects_expired_or_unverified_witness:
  "(1000 \<le> (1700000301000::nat) \<and>
    messageTime ''addr:1700000000:starRegistry'' = Some 1700000000 \<and>
    300 < int (1700000301000 div 1000) - 1700000000 \<and>
    submitStar test_env 1700000301000 1700000301001 1700000301002 genesis_chain ''addr''
      ''addr:1700000000:starRegistry'' ''signed:addr:1700000000:starRegistry'' ''Sirius'' =
      (Inl ExpiredChallengeError, genesis_chain)) \<and>
   (verify test_env ''addr:1700000000:starRegistry'' ''addr'' ''forged'' = Some False \<and>
    \<not> moreThan5Minutes (currentTime 1700000100000)
        (messageTime ''addr:1700000000:starRegistry'') \<and>
    submitStar test_env 1700000100000 1700000100001 1700000100002 genesis_chain ''addr''
      ''addr:1700000000:starRegistry'' ''forged'' ''Sirius'' =
      (Inl SignatureError, genesis_chain))"
proof -
  note m = messageTime_parsed
  have v: "verify test_env ''addr:1700000000:starRegistry'' ''addr'' ''forged'' = Some False"
    by (simp add: test_env_def)
  note w = in_time_window
  show ?thesis
    using m v w
      submitStar_rejects_expired_or_unverified [of 1700000301000
        "''addr:1700000000:starRegistry''" 1700000000 test_env 1700000301001 1700000301002
        genesis_chain "''addr''" "''signed:addr:1700000000:starRegistry''" "''Sirius''"]
      submitStar_rejects_expired_or_unverified [of 1700000100000
        "''addr:1700000000:starRegistry''" 0 test_env 1700000100001 1700000100002
        genesis_chain "''addr''" "''forged''" "''Sirius''"]
    by simp
qed

text \<open>
  C6. The second field of \<open>''addr:soon:starRegistry''\<close> does not parse, so the elapsed
  time is \<^verbatim>\<open>NaN\<close> and the test \<^verbatim>\<open>> 5\<close> is false (\<open>moreThan5Minutes_NaN\<close>): the check of
  the time is passed over, and with a signature that verifies \<^verbatim>\<open>submitStar\<close> resolves and
  the chain has one block more, where the claim has it rejected and nothing appended.
\<close>

theorem submitStar_unparsable_time_accepted:
  "messageTime ''addr:soon:starRegistry'' = None \<and>
   \<not> moreThan5Minutes (currentTime 1700000100000) (messageTime ''addr:soon:starRegistry'') \<and>
   \<not> isl (fst (submitStar test_env 1700000100000 1700000100001 1700000100002 genesis_chain
      ''addr'' ''addr:soon:starRegistry'' ''signed:addr:soon:starRegistry'' ''Sirius'')) \<and>
   length (chain (snd (submitStar test_env 1700000100000 1700000100001 1700000100002 genesis_chain
      ''addr'' ''addr:soon:starRegistry'' ''signed:addr:soon:starRegistry'' ''Sirius''))) =
     length (chain genesis_chain) + 1"
  by (simp add: genesis_chain_value model_simps)

text \<open>
  C7. The promise of \<^verbatim>\<open>_addBlock\<close> is handed to \<^verbatim>\<open>resolve\<close> without being awaited, so its
  rejection is not seen by the \<^verbatim>\<open>catch\<close> clause. Within the time window and with a
  signature that verifies, a claim submitted to a chain that fails validation after the
  append is rejected with the integrity error of \<^verbatim>\<open>_addBlock\<close>, where the claim has the
  generic error; the block stays in the chain.
\<close>

theorem submitStar_append_failure_not_wrapped:
  "verify test_env ''addr:1700000000:starRegistry'' ''addr''
      ''signed:addr:1700000000:starRegistry'' = Some True \<and>
   \<not> moreThan5Minutes (currentTime 1700000100000)
       (messageTime ''addr:1700000000:starRegistry'') \<and>
   fst (submitStar test_env 1700000100000 1700000100001 1700000100002 presealed_chain
      ''addr'' ''addr:1700000000:starRegistry'' ''signed:addr:1700000000:starRegistry''
      ''Sirius'') = Inl ChainIntegrityError \<and>
   fst (submitStar test_env 1700000100000 1700000100001 1700000100002 presealed_chain
      ''addr'' ''addr:1700000000:starRegistry'' ''signed:addr:1700000000:starRegistry''
      ''Sirius'') \<noteq> Inl ClaimSubmissionError \<and>
   length (chain (snd (submitStar test_env 1700000100000 1700000100001 1700000100002
      presealed_chain ''addr'' ''addr:1700000000:starRegistry''
      ''signed:addr:1700000000:starRegistry'' ''Sirius''))) = 3"
proof -
  have "submitStar test_env 1700000100000 1700000100001 1700000100002 presealed_chain
      ''addr'' ''addr:1700000000:starRegistry'' ''signed:addr:1700000000:starRegistry''
      ''Sirius'' =
    addBlock test_env 1700000100001 1700000100002 presealed_chain
      (BlockObj ((Block test_env ''Sirius'' (Some ''addr''))\<lparr>owner := Some ''addr''\<rparr>))"
    using in_time_window by (simp add: submitStar_def test_env_def)
  moreover have "fst (addBlock test_env 1700000100001 1700000100002 presealed_chain
      (BlockObj ((Block test_env ''Sirius'' (Some ''addr''))\<lparr>owner := Some ''addr''\<rparr>))) =
      Inl ChainIntegrityError"
    by (simp add: presealed_chain_value model_simps)
  moreover have "length (chain presealed_chain) = 2"
    by (simp add: presealed_chain_value)
  moreover have "verify test_env ''addr:1700000000:starRegistry'' ''addr''
      ''signed:addr:1700000000:starRegistry'' = Some True"
    by (simp add: test_env_def)
  ultimately show ?thesis
    using in_time_window by (simp add: addBlock_length)
qed

subsection \<open>The stars of an address\<close>

lemma foldl_push_map: "foldl (\<lambda>acc x. acc @ [f x]) acc xs = acc @ map f xs"
  by (induction xs arbitrary: acc) simp_all

lemma getStarsByWalletAddress_eq:
  "getStarsByWalletAddress self address =
     (let stars = map (\<lambda>b. hex2ascii (body b)) (filter (\<lambda>p. owner p = Some address) (chain self))
      in if stars = [] then None else Some stars)"
  by (simp add: getStarsByWalletAddress_def Let_def foldl_push_map)

lemma submitStar_Inr_chain:
  assumes "submitStar e t0 t1 t2 self address message signature star = (Inr b, self')"
  shows "\<exists>b'. chain self' = chain self @ [b'] \<and>
      body b' = ascii2hex (stringify e star (Some address)) \<and> owner b' = Some address"
proof -
  let ?blk = "(Block e star (Some address))\<lparr>owner := Some address\<rparr>"
  from assms have "submitStar e t0 t1 t2 self address message signature star =
      addBlock e t1 t2 self (BlockObj ?blk)"
    by (auto simp: submitStar_def Let_def split: if_splits option.splits bool.splits)
  with assms have "self' = snd (addBlock e t1 t2 self (BlockObj ?blk))"
    by simp
  with addBlock_BlockObj_chain [of e t1 t2 self ?blk] show ?thesis
    by (simp add: Block_def)
qed

text \<open>
  C10. After \<^verbatim>\<open>submitStar\<close> has resolved for a star and an address,
  \<^verbatim>\<open>getStarsByWalletAddress\<close> of that address does not resolve with \<^verbatim>\<open>null\<close>: it resolves
  with a list that holds the decoded payload of the claim, the text of the record of the
  star and the address.
\<close>

theorem submitStar_then_getStars:
  assumes "submitStar e t0 t1 t2 self address message signature star = (Inr b, self')"
  shows "\<exists>stars. getStarsByWalletAddress self' address = Some stars \<and>
      stringify e star (Some address) \<in> set stars"
proof -
  from submitStar_Inr_chain [OF assms] obtain b' where
    ch: "chain self' = chain self @ [b']" and
    bd: "body b' = ascii2hex (stringify e star (Some address))" and
    ow: "owner b' = Some address"
    by blast
  let ?stars = "map (\<lambda>b. hex2ascii (body b)) (filter (\<lambda>p. owner p = Some address) (chain self'))"
  have "b' \<in> set (filter (\<lambda>p. owner p = Some address) (chain self'))"
    using ch ow by simp
  then have "hex2ascii (body b') \<in> set ?stars"
    unfolding set_map by (rule imageI)
  then have mem: "stringify e star (Some address) \<in> set ?stars"
    by (simp only: bd hex2ascii_ascii2hex)
  then have "?stars \<noteq> []" by (metis empty_iff empty_set)
  then have "getStarsByWalletAddress self' address = Some ?stars"
    by (simp add: getStarsByWalletAddress_eq Let_def)
  with mem show ?thesis by blast
qed

theorem submitStar_then_getStars_witness:
  "submitStar test_env 1700000100000 1700000100001 1700000100002 genesis_chain
      ''addr'' ''addr:1700000000:starRegistry'' ''signed:addr:1700000000:starRegistry''
      ''Sirius'' = (Inr (chain star_chain ! 1), star_chain) \<and>
   (\<exists>stars. getStarsByWalletAddress star_chain ''addr'' = Some stars \<and>
      ''Sirius|addr'' \<in> set stars)"
proof -
  have h: "submitStar test_env 1700000100000 1700000100001 1700000100002 genesis_chain
      ''addr'' ''addr:1700000000:starRegistry'' ''signed:addr:1700000000:starRegistry''
      ''Sirius'' = (Inr (chain star_chain ! 1), star_chain)"
    unfolding star_chain_value by (simp add: genesis_chain_value model_simps)
  have s: "stringify test_env ''Sirius'' (Some ''addr'') = ''Sirius|addr''"
    by (simp add: test_env_def)
  from submitStar_then_getStars [OF h] h s show ?thesis
    by simp
qed

subsection \<open>What the scan does not see\<close>

lemma errorsAt_last_irrelevant:
  assumes prev: "previousBlockHash b' = previousBlockHash b" and i: "i < length xs"
  shows "errorsAt e (xs @ [b']) i = errorsAt e (xs @ [b]) i"
proof -
  have here: "(xs @ [b']) ! i = (xs @ [b]) ! i"
    using i by (simp only: nth_append if_True)
  have next_link: "previousBlockHash ((xs @ [b']) ! (i + 1)) =
      previousBlockHash ((xs @ [b]) ! (i + 1))"
  proof (cases "i + 1 < length xs")
    case True
    then show ?thesis by (simp only: nth_append if_True)
  next
    case False
    with i have "i + 1 = length xs" by linarith
    then show ?thesis using prev by (simp only: nth_append_length)
  qed
  show ?thesis
    by (simp only: errorsAt_def here next_link)
qed

lemma validateChain_last_irrelevant:
  assumes "previousBlockHash b' = previousBlockHash b"
  shows "validateChain e (xs @ [b']) = validateChain e (xs @ [b])"
proof -
  have "map (errorsAt e (xs @ [b'])) [0..<length xs] =
      map (errorsAt e (xs @ [b])) [0..<length xs]"
  proof (rule map_cong [OF refl])
    fix i
    assume "i \<in> set [0..<length xs]"
    then have "i < length xs" by simp
    with assms show "errorsAt e (xs @ [b']) i = errorsAt e (xs @ [b]) i"
      by (rule errorsAt_last_irrelevant)
  qed
  then have c: "concat (map (errorsAt e (xs @ [b'])) [0..<length xs]) =
      concat (map (errorsAt e (xs @ [b])) [0..<length xs])"
    by (rule arg_cong [where f = concat])
  have l: "length (xs @ [b']) - 1 = length xs" "length (xs @ [b]) - 1 = length xs"
    by simp_all
  show ?thesis
    unfolding validateChain_eq l by (rule c)
qed

text \<open>
  C4. The scan stops at index length - 2, so the last block is never validated
  (\<open>validateChain_last_irrelevant\<close>: of the last block only the back-link is read). On the
  chain of the genesis block and one star claim the scan returns no error, and it still
  returns no error after the body of the block at index 1 has been replaced: the index of
  the changed block is not in the result.
\<close>

theorem validateChain_misses_last_block:
  "length (chain star_chain) = 2 \<and>
   validateChain test_env (chain star_chain) = [] \<and>
   body (chain star_chain ! 1) \<noteq> ascii2hex ''Vega|addr'' \<and>
   validateChain test_env
     ((chain star_chain)[1 := (chain star_chain ! 1)\<lparr>body := ascii2hex ''Vega|addr''\<rparr>]) = []"
  by (simp add: star_chain_value model_simps)

end
